theory Spec2Isabelle
  imports Main "HOL-Library.Word" "HOL-Library.Sublist"
begin

section \<open>JavaScript strings\<close>

text \<open>
  A JavaScript string is a sequence of 16-bit code units; \<open>length\<close>, \<open>slice\<close>,
  \<open>split\<close> and \<open>trim\<close> all count and cut code units. \<open>js\<close> embeds an ASCII
  literal.
\<close>

type_synonym jschar = "16 word"
type_synonym jsstring = "jschar list"

definition js :: "string \<Rightarrow> jsstring" where
  "js s = map (\<lambda>c. of_nat (of_char c)) s"

text \<open>
  The characters matched by \<open>\s\<close> in a regular expression and removed by
  \<open>String.prototype.trim\<close>: the WhiteSpace and LineTerminator code points.
\<close>

definition is_ws :: "jschar \<Rightarrow> bool" where
  "is_ws c =
     (c \<in> set [0x9, 0xA, 0xB, 0xC, 0xD, 0x20, 0xA0, 0x1680, 0x2028, 0x2029, 0x202F,
                0x205F, 0x3000, 0xFEFF]
      \<or> (0x2000 \<le> c \<and> c \<le> 0x200A))"

definition trim :: "jsstring \<Rightarrow> jsstring" where
  "trim s = rev (dropWhile is_ws (rev (dropWhile is_ws s)))"

text \<open>
  \<open>s.split(/\s+/)\<close>: the pieces between maximal runs of whitespace, the empty pieces
  at either end included; the empty string gives one empty piece.
\<close>

function split_ws :: "jsstring \<Rightarrow> jsstring list" where
  "split_ws s =
     (let tok = takeWhile (\<lambda>c. \<not> is_ws c) s; rest = dropWhile (\<lambda>c. \<not> is_ws c) s
      in if rest = [] then [tok] else tok # split_ws (dropWhile is_ws rest))"
  by pat_completeness auto
termination
proof (relation "measure length")
  show "wf (measure length)" by simp
next
  fix s tok rest :: jsstring
  assume r: "rest = dropWhile (\<lambda>c. \<not> is_ws c) s" and ne: "rest \<noteq> []"
  from ne have "is_ws (hd rest)" unfolding r using hd_dropWhile by metis
  with ne have "length (dropWhile is_ws rest) < length rest"
    by (cases rest) (auto simp: le_imp_less_Suc length_dropWhile_le)
  also have "length rest \<le> length s" unfolding r by (rule length_dropWhile_le)
  finally show "(dropWhile is_ws rest, s) \<in> measure length" by simp
qed

declare split_ws.simps [simp del]

text \<open>\<open>parts.join(' ')\<close>.\<close>

fun join_sp :: "jsstring list \<Rightarrow> jsstring" where
  "join_sp [] = []"
| "join_sp [p] = p"
| "join_sp (p # q # ps) = p @ 0x20 # join_sp (q # ps)"

text \<open>
  \<open>xs.slice(start)\<close> on a string or an array, for an integer \<open>start\<close>: a negative
  \<open>start\<close> counts from the end, and both ends are clamped to the length. The source
  always writes \<open>slice(-n)\<close>; in JavaScript \<open>-0\<close> is \<open>0\<close> for \<open>slice\<close>, so
  \<open>slice(-0)\<close> keeps everything.
\<close>

definition js_slice :: "int \<Rightarrow> 'a list \<Rightarrow> 'a list" where
  "js_slice start xs =
     (let len = int (length xs);
          k = (if start < 0 then max (len + start) 0 else min start len)
      in drop (nat k) xs)"

section \<open>History log\<close>

record HistoryEntry =
  he_command :: jsstring
  he_cwd :: jsstring
  he_success :: bool
  he_exitCode :: "int option"
  he_duration :: int
  he_timestamp :: jsstring

text \<open>
  \<open>getHistory(limit = 50)\<close>: \<open>commandHistory.slice(-limit).reverse()\<close>. The argument is
  \<open>None\<close> when the caller passes \<open>undefined\<close>; numbers are modelled as integers.
\<close>

definition getHistory :: "int option \<Rightarrow> HistoryEntry list \<Rightarrow> HistoryEntry list" where
  "getHistory limit commandHistory =
     (let l = (case limit of None \<Rightarrow> 50 | Some l \<Rightarrow> l)
      in rev (js_slice (- l) commandHistory))"

definition sample_entry :: "nat \<Rightarrow> HistoryEntry" where
  "sample_entry n = \<lparr> he_command = js ''true'', he_cwd = js ''/root/.openclaw/workspace'',
     he_success = True, he_exitCode = Some 0, he_duration = int n, he_timestamp = [] \<rparr>"

section \<open>JSON values and JavaScript conversions\<close>

text \<open>
  The values \<open>JSON.parse\<close> produces. Numbers are modelled as integers (the integer-valued
  numbers below \<open>10^21\<close>, which print in plain decimal); an object is the list of its own
  properties, each key once. A JavaScript value that may be \<open>undefined\<close> is a
  \<open>json option\<close>, \<open>None\<close> standing for \<open>undefined\<close>.
\<close>

datatype json =
    JNull
  | JBool bool
  | JNum int
  | JStr jsstring
  | JArr "json list"
  | JObj "(jsstring \<times> json) list"

text \<open>
  The exceptions the model distinguishes: a \<open>TypeError\<close> (also the class of the
  runtime's argument errors), and any other error the runtime throws from a system call.
\<close>

datatype js_error = TypeError | SystemError

text \<open>Truthiness, as \<open>if (v)\<close>, \<open>a && b\<close> and \<open>a || b\<close> test it.\<close>

fun truthy :: "json option \<Rightarrow> bool" where
  "truthy None = False"
| "truthy (Some JNull) = False"
| "truthy (Some (JBool b)) = b"
| "truthy (Some (JNum n)) = (n \<noteq> 0)"
| "truthy (Some (JStr s)) = (s \<noteq> [])"
| "truthy (Some (JArr xs)) = True"
| "truthy (Some (JObj kvs)) = True"

text \<open>
  Reading one of the properties \<open>id\<close>, \<open>method\<close>, \<open>params\<close>, \<open>name\<close>,
  \<open>arguments\<close>, \<open>limit\<close>, \<open>command\<close> of a value. None of these names is
  inherited by an object, an array, a string, a number or a boolean, so only an object's own
  property gives a value. The source reads them from values that are not nullish, or through
  \<open>?.\<close>, so the read itself never throws.
\<close>

fun get_prop :: "json option \<Rightarrow> jsstring \<Rightarrow> json option" where
  "get_prop (Some (JObj kvs)) k = map_of kvs k"
| "get_prop v k = None"

text \<open>Decimal digits of a number, as \<open>String(n)\<close> prints an integer.\<close>

fun digits :: "nat \<Rightarrow> jsstring" where
  "digits n = (if n < 10 then [of_nat (48 + n)] else digits (n div 10) @ [of_nat (48 + n mod 10)])"

declare digits.simps [simp del]

definition num_to_string :: "int \<Rightarrow> jsstring" where
  "num_to_string n = (if n < 0 then 0x2D # digits (nat (- n)) else digits (nat n))"

text \<open>
  \<open>ToString\<close> of a parsed value, as a template literal, string concatenation and a
  computed property key apply it. An object is converted through its \<open>toString\<close>
  property: the inherited one gives \<open>[object Object]\<close>, but an own property of that name
  is a parsed value, not a function, and then the conversion throws a \<open>TypeError\<close>
  (the inherited \<open>valueOf\<close> returns the object itself, and an own one is not callable
  either). An array is joined with commas, \<open>null\<close> elements printing as nothing.
\<close>

fun to_string :: "json \<Rightarrow> js_error + jsstring"
  and join_comma :: "json list \<Rightarrow> js_error + jsstring" where
  "to_string JNull = Inr (js ''null'')"
| "to_string (JBool b) = Inr (if b then js ''true'' else js ''false'')"
| "to_string (JNum n) = Inr (num_to_string n)"
| "to_string (JStr s) = Inr s"
| "to_string (JArr xs) = join_comma xs"
| "to_string (JObj kvs) =
     (if js ''toString'' \<in> set (map fst kvs) then Inl TypeError else Inr (js ''[object Object]''))"
| "join_comma [] = Inr []"
| "join_comma (x # xs) =
     (case (if x = JNull then Inr [] else to_string x) of
        Inl e \<Rightarrow> Inl e
      | Inr a \<Rightarrow>
          (if xs = [] then Inr a
           else (case join_comma xs of Inl e \<Rightarrow> Inl e | Inr b \<Rightarrow> Inr (a @ 0x2C # b))))"

fun to_string_val :: "json option \<Rightarrow> js_error + jsstring" where
  "to_string_val None = Inr (js ''undefined'')"
| "to_string_val (Some v) = to_string v"

section \<open>Alias table\<close>

text \<open>
  \<open>const aliases = {}\<close>: a plain object used as the table. The model keeps its own
  properties; its prototype is \<open>Object.prototype\<close>. A read \<open>aliases[k]\<close> therefore
  finds, for a key the table does not hold itself, whatever \<open>Object.prototype\<close> has under
  that name: a function (or, for \<open>__proto__\<close>, the prototype object), which is truthy and
  has no \<open>split\<close> method. An assignment cannot give the table a property of its own
  named \<open>__proto__\<close> (see \<open>alias_set\<close>), so that key is always the inherited one.
\<close>

type_synonym alias_table = "jsstring \<rightharpoonup> json"

datatype lookup = Undefined | Val json | Builtin

definition object_prototype_names :: "jsstring list" where
  "object_prototype_names =
     [js ''constructor'', js ''hasOwnProperty'', js ''isPrototypeOf'',
      js ''propertyIsEnumerable'', js ''toLocaleString'', js ''toString'', js ''valueOf'',
      js ''__defineGetter__'', js ''__defineSetter__'', js ''__lookupGetter__'',
      js ''__lookupSetter__'', js ''__proto__'']"

definition alias_get :: "alias_table \<Rightarrow> jsstring \<Rightarrow> lookup" where
  "alias_get aliases k =
     (if k = js ''__proto__'' then Builtin
      else (case aliases k of
              Some v \<Rightarrow> Val v
            | None \<Rightarrow> if k \<in> set object_prototype_names then Builtin else Undefined))"

fun lookup_truthy :: "lookup \<Rightarrow> bool" where
  "lookup_truthy Undefined = False"
| "lookup_truthy (Val v) = truthy (Some v)"
| "lookup_truthy Builtin = True"

text \<open>
  \<open>resolveCommand(cmd)\<close> for a string \<open>cmd\<close>. \<open>split\<close> never returns an empty array,
  so \<open>parts[0]\<close> is its head. Calling \<open>.split\<close> on a truthy value that is not a
  string throws a \<open>TypeError\<close>.
\<close>

definition resolveCommand :: "alias_table \<Rightarrow> jsstring \<Rightarrow> js_error + jsstring" where
  "resolveCommand aliases cmd =
     (let trimmed = trim cmd;
          parts = split_ws trimmed;
          potentialAlias = hd parts
      in if lookup_truthy (alias_get aliases potentialAlias) then
           (case alias_get aliases potentialAlias of
              Val (JStr template) \<Rightarrow>
                (let aliasParts = split_ws template; rest = tl parts
                 in Inr (join_sp (aliasParts @ rest)))
            | _ \<Rightarrow> Inl TypeError)
         else Inr cmd)"

section \<open>Execution engine\<close>

definition defaultTimeout :: int where "defaultTimeout = 30000"
definition maxTimeout :: int where "maxTimeout = 120000"
definition config_maxOutput :: int where "config_maxOutput = 1024 * 1024"

definition allowedDirectories :: "jsstring list" where
  "allowedDirectories = [js ''/root/.openclaw/workspace'']"

text \<open>The literal \<open>'/root/.openclaw/workspace'\<close> of lines 85 and 101.\<close>

definition workspace_root :: jsstring where
  "workspace_root = js ''/root/.openclaw/workspace''"

text \<open>
  The argument of \<open>executeCommand\<close>, for a request whose fields, where present, are a
  string (\<open>command\<close>, \<open>cwd\<close>), an object of strings (\<open>env\<close>) and integers
  (\<open>timeout\<close>, \<open>maxOutput\<close>); an absent field is \<open>None\<close> and takes the default of
  the destructuring pattern.
\<close>

record ExecutionRequest =
  req_command :: jsstring
  req_cwd :: "jsstring option"
  req_env :: "(jsstring \<rightharpoonup> jsstring) option"
  req_timeout :: "int option"
  req_maxOutput :: "int option"

text \<open>The constants of one call's closure, and its mutable variables.\<close>

record exec_ctx =
  command :: jsstring
  resolvedCmd :: jsstring
  resolvedCwd :: jsstring
  timeout :: int
  maxOutput :: int
  startTime :: int

datatype kill_cause = OverflowKill | TimeoutKill

record ExecutionResult =
  res_success :: bool
  res_exitCode :: "int option"
  res_stdout :: jsstring
  res_stderr :: jsstring
  res_duration :: int
  res_cwd :: jsstring
  res_timedOut :: bool
  res_originalCommand :: jsstring
  res_resolvedCommand :: jsstring

record SpawnFailure =
  sf_success :: bool
  sf_error :: jsstring
  sf_cwd :: jsstring
  sf_originalCommand :: jsstring
  sf_resolvedCommand :: jsstring

datatype outcome = Completed ExecutionResult | Failed SpawnFailure

text \<open>
  \<open>kill_calls\<close> logs each \<open>child.kill('SIGKILL')\<close> with the handler that made it;
  \<open>timer_pending\<close> says that the timer behind \<open>timeoutId\<close> has neither fired nor been
  cleared; \<open>settled\<close> is the value the promise was resolved with (the first
  \<open>resolve\<close> wins, later ones do nothing).
\<close>

record exec_state =
  stdout :: jsstring
  stderr :: jsstring
  killed :: bool
  timedOut :: bool
  timer_pending :: bool
  kill_calls :: "kill_cause list"
  settled :: "outcome option"

record spawn_call =
  sp_command :: jsstring
  sp_shell :: jsstring
  sp_cwd :: jsstring
  sp_env :: "jsstring \<rightharpoonup> jsstring"

datatype stream = Stdout | Stderr

text \<open>
  What the runtime delivers to the call's handlers: a chunk on a stream, the timer, the
  child's \<open>close\<close> (with the exit code, \<open>null\<close> after a signal, and the readings of
  \<open>Date.now()\<close> and \<open>new Date().toISOString()\<close> at that moment) and its \<open>error\<close>.
\<close>

datatype event =
    Data stream jsstring
  | TimerFired
  | Close "int option" int jsstring
  | SpawnError jsstring

definition outputHandler :: "exec_ctx \<Rightarrow> stream \<Rightarrow> jsstring \<Rightarrow> exec_state \<Rightarrow> exec_state" where
  "outputHandler c strm chunk s =
     (let totalLen = int (length (stdout s)) + int (length (stderr s))
      in if totalLen > maxOutput c then
           (if \<not> killed s \<and> \<not> timedOut s
            then s\<lparr>kill_calls := kill_calls s @ [OverflowKill], killed := True\<rparr>
            else s)
         else if strm = Stdout then s\<lparr>stdout := stdout s @ chunk\<rparr>
         else s\<lparr>stderr := stderr s @ chunk\<rparr>)"

definition timeout_marker :: "exec_ctx \<Rightarrow> jsstring" where
  "timeout_marker c =
     0xA # js ''[Command timed out after '' @ num_to_string (timeout c div 1000) @ js ''s]''"

definition doTimeout :: "exec_ctx \<Rightarrow> exec_state \<Rightarrow> exec_state" where
  "doTimeout c s =
     (if \<not> killed s \<and> \<not> timedOut s
      then s\<lparr>timedOut := True, kill_calls := kill_calls s @ [TimeoutKill], killed := True,
             stderr := stderr s @ timeout_marker c\<rparr>
      else s)"

definition resolve :: "outcome \<Rightarrow> exec_state \<Rightarrow> exec_state" where
  "resolve out s = (case settled s of None \<Rightarrow> s\<lparr>settled := Some out\<rparr> | Some _ \<Rightarrow> s)"

definition close_result :: "exec_ctx \<Rightarrow> int option \<Rightarrow> int \<Rightarrow> exec_state \<Rightarrow> ExecutionResult" where
  "close_result c code now s =
     \<lparr> res_success = (code = Some 0 \<or> timedOut s),
       res_exitCode = code,
       res_stdout = js_slice (- maxOutput c) (stdout s),
       res_stderr = (if timedOut s then stderr s else js_slice (- maxOutput c) (stderr s)),
       res_duration = now - startTime c,
       res_cwd = resolvedCwd c,
       res_timedOut = timedOut s,
       res_originalCommand = command c,
       res_resolvedCommand = resolvedCmd c \<rparr>"

definition close_entry :: "exec_ctx \<Rightarrow> int option \<Rightarrow> int \<Rightarrow> jsstring \<Rightarrow> HistoryEntry" where
  "close_entry c code now stamp =
     \<lparr> he_command = resolvedCmd c, he_cwd = resolvedCwd c, he_success = (code = Some 0),
       he_exitCode = code, he_duration = now - startTime c, he_timestamp = stamp \<rparr>"

definition on_close ::
  "exec_ctx \<Rightarrow> int option \<Rightarrow> int \<Rightarrow> jsstring \<Rightarrow> exec_state \<times> HistoryEntry list
     \<Rightarrow> exec_state \<times> HistoryEntry list" where
  "on_close c code now stamp w =
     (let s = (fst w)\<lparr>timer_pending := False\<rparr>;
          commandHistory = snd w;
          result = close_result c code now s;
          commandHistory' =
            (if \<not> timedOut s then commandHistory @ [close_entry c code now stamp]
             else commandHistory)
      in (resolve (Completed result) s, commandHistory'))"

definition on_error :: "exec_ctx \<Rightarrow> jsstring \<Rightarrow> exec_state \<Rightarrow> exec_state" where
  "on_error c message s =
     resolve (Failed \<lparr> sf_success = False, sf_error = message, sf_cwd = resolvedCwd c,
                       sf_originalCommand = command c, sf_resolvedCommand = resolvedCmd c \<rparr>)
       (s\<lparr>timer_pending := False\<rparr>)"

fun step :: "exec_ctx \<Rightarrow> event \<Rightarrow> exec_state \<times> HistoryEntry list \<Rightarrow> exec_state \<times> HistoryEntry list" where
  "step c (Data strm chunk) w = (outputHandler c strm chunk (fst w), snd w)"
| "step c TimerFired w =
     (if timer_pending (fst w) then (doTimeout c ((fst w)\<lparr>timer_pending := False\<rparr>), snd w) else w)"
| "step c (Close code now stamp) w = on_close c code now stamp w"
| "step c (SpawnError message) w = (on_error c message (fst w), snd w)"

definition run :: "exec_ctx \<Rightarrow> event list \<Rightarrow> exec_state \<times> HistoryEntry list \<Rightarrow> exec_state \<times> HistoryEntry list" where
  "run c es w = foldl (\<lambda>w e. step c e w) w es"

definition initial_state :: exec_state where
  "initial_state = \<lparr> stdout = [], stderr = [], killed = False, timedOut = False,
     timer_pending = True, kill_calls = [], settled = None \<rparr>"

text \<open>
  \<open>spawn\<close> checks its arguments before it starts anything and throws when the command
  is the empty string or contains a NUL character. \<open>spawn_refuses\<close> stands for whatever
  else the runtime refuses on the spot, by throwing instead of emitting an \<open>error\<close>
  event (other checks of the options, a failing system call).
\<close>

definition spawn_throws :: "(spawn_call \<Rightarrow> bool) \<Rightarrow> spawn_call \<Rightarrow> js_error option" where
  "spawn_throws spawn_refuses call =
     (if sp_command call = [] \<or> 0 \<in> set (sp_command call) then Some TypeError
      else if spawn_refuses call then Some SystemError
      else None)"

text \<open>
  The synchronous part of \<open>executeCommand\<close>, up to \<open>setTimeout\<close>. \<open>path_resolve\<close> is
  Node's \<open>path.resolve\<close>, \<open>spawn_refuses\<close> the runtime's part of \<open>spawn\<close>,
  \<open>process_env\<close> is \<open>process.env\<close> and \<open>now\<close> the reading of \<open>Date.now()\<close>: all
  four are the runtime's. The result is the closure's constants, the \<open>spawn\<close> call, the
  delay the timer is armed with and the variables' first values. Nothing in the executor
  catches an exception: one thrown by \<open>resolveCommand\<close> or by \<open>spawn\<close> rejects the
  promise, and then no child runs and no timer is armed.
\<close>

definition executeCommand_start ::
  "(jsstring \<Rightarrow> jsstring) \<Rightarrow> (spawn_call \<Rightarrow> bool) \<Rightarrow> (jsstring \<rightharpoonup> jsstring) \<Rightarrow> int \<Rightarrow> alias_table
     \<Rightarrow> ExecutionRequest \<Rightarrow> js_error + (exec_ctx \<times> spawn_call \<times> int \<times> exec_state)" where
  "executeCommand_start path_resolve spawn_refuses process_env now aliases args =
     (let cmd = req_command args;
          cwd = (case req_cwd args of None \<Rightarrow> js ''/root/.openclaw/workspace'' | Some d \<Rightarrow> d);
          env = (case req_env args of None \<Rightarrow> Map.empty | Some e \<Rightarrow> e);
          tmo = (case req_timeout args of None \<Rightarrow> defaultTimeout | Some t \<Rightarrow> t);
          maxOut = (case req_maxOutput args of None \<Rightarrow> config_maxOutput | Some m \<Rightarrow> m)
      in case resolveCommand aliases cmd of
           Inl e \<Rightarrow> Inl e
         | Inr resolved \<Rightarrow>
             (let isAllowed = list_ex (\<lambda>dir. prefix dir (path_resolve cwd)) allowedDirectories;
                  rcwd = (if \<not> isAllowed then js ''/root/.openclaw/workspace'' else path_resolve cwd);
                  shellEnv = process_env ++ env;
                  call = \<lparr> sp_command = resolved, sp_shell = js ''/bin/bash'', sp_cwd = rcwd,
                           sp_env = shellEnv \<rparr>
              in case spawn_throws spawn_refuses call of
                   Some e \<Rightarrow> Inl e
                 | None \<Rightarrow>
                     Inr (\<lparr> command = cmd, resolvedCmd = resolved, resolvedCwd = rcwd,
                            timeout = tmo, maxOutput = maxOut, startTime = now \<rparr>,
                          call,
                          min tmo maxTimeout,
                          initial_state)))"

datatype promise = Pending | Resolved outcome | Rejected js_error

text \<open>
  One call of \<open>executeCommand\<close> against the events the runtime delivers to it: the state
  of the returned promise, and the history log afterwards.
\<close>

definition executeCommand ::
  "(jsstring \<Rightarrow> jsstring) \<Rightarrow> (spawn_call \<Rightarrow> bool) \<Rightarrow> (jsstring \<rightharpoonup> jsstring) \<Rightarrow> int \<Rightarrow> alias_table
     \<Rightarrow> ExecutionRequest \<Rightarrow> event list \<Rightarrow> HistoryEntry list \<Rightarrow> promise \<times> HistoryEntry list" where
  "executeCommand path_resolve spawn_refuses process_env now aliases args events commandHistory =
     (case executeCommand_start path_resolve spawn_refuses process_env now aliases args of
        Inl e \<Rightarrow> (Rejected e, commandHistory)
      | Inr (c, call, delay, s0) \<Rightarrow>
          (let w = run c events (s0, commandHistory)
           in ((case settled (fst w) of None \<Rightarrow> Pending | Some out \<Rightarrow> Resolved out), snd w)))"

section \<open>Dispatcher\<close>

record server =
  aliases :: alias_table
  commandHistory :: "HistoryEntry list"

text \<open>
  A response, before \<open>JSON.stringify\<close>: \<open>resp_id = None\<close> is an \<open>id\<close> that is
  \<open>undefined\<close> and so left out of the printed object. The text of a tool result is kept as
  the value that is printed into it; \<open>ErrorBody code message data\<close> is the \<open>error\<close>
  member.
\<close>

datatype content =
    ExecutionText outcome
  | HistoryText "HistoryEntry list"
  | ClearedText
  | AliasesText alias_table
  | AddedText json
  | RemovedText json

datatype body = InitializeResult | ToolResult content | ErrorBody int jsstring "js_error option"

record response =
  resp_id :: "json option"
  resp_body :: body

text \<open>
  What handling one message does besides changing the tables: it sends a response, writes
  the alias file, or starts \<open>executeCommand(toolArgs)\<close>, whose response follows when the
  promise settles (\<open>execute_reply\<close>).
\<close>

datatype action =
    Send response
  | SaveAliases alias_table
  | CallExecute "json option" "json option"

definition execute_reply :: "json option \<Rightarrow> promise \<Rightarrow> response option" where
  "execute_reply ident p =
     (case p of
        Pending \<Rightarrow> None
      | Resolved result \<Rightarrow> Some \<lparr> resp_id = ident, resp_body = ToolResult (ExecutionText result) \<rparr>
      | Rejected e \<Rightarrow>
          Some \<lparr> resp_id = ident, resp_body = ErrorBody (- 32000) (js ''Command failed'') (Some e) \<rparr>)"

text \<open>
  The number \<open>slice(-limit)\<close> works with, for a \<open>limit\<close> that is not \<open>undefined\<close>:
  \<open>null\<close> and \<open>false\<close> count as 0, \<open>true\<close> as 1, an object converts to \<open>NaN\<close>, which
  \<open>slice\<close> takes as 0, unless converting it throws. A string or an array converts through
  the text of a number, which is not modelled: \<open>None\<close>.
\<close>

fun slice_limit :: "json \<Rightarrow> (js_error + int) option" where
  "slice_limit (JNum n) = Some (Inr n)"
| "slice_limit JNull = Some (Inr 0)"
| "slice_limit (JBool b) = Some (Inr (if b then 1 else 0))"
| "slice_limit (JObj kvs) =
     Some (if js ''toString'' \<in> set (map fst kvs) then Inl TypeError else Inr 0)"
| "slice_limit (JStr s) = None"
| "slice_limit (JArr xs) = None"

text \<open>
  \<open>aliases[key] = value\<close>. The key \<open>__proto__\<close> goes to the setter every object inherits
  and creates no property: a value that is not an object is ignored, an object would become the
  table's prototype, which this model of the table does not cover (\<open>None\<close>).
\<close>

definition alias_set :: "alias_table \<Rightarrow> jsstring \<Rightarrow> json \<Rightarrow> alias_table option" where
  "alias_set table key v =
     (if key = js ''__proto__'' then
        (case v of JObj kvs \<Rightarrow> None | JArr xs \<Rightarrow> None | _ \<Rightarrow> Some table)
      else Some (table(key \<mapsto> v)))"

text \<open>
  \<open>handleMessage(msg)\<close>. \<open>Inl\<close> is an exception thrown out of the function, before any
  effect; \<open>None\<close> is a request outside the model (see \<open>slice_limit\<close> and
  \<open>alias_set\<close>).
\<close>

definition handleMessage :: "json \<Rightarrow> server \<Rightarrow> (js_error + server \<times> action list) option" where
  "handleMessage msg srv =
     (let m = (if truthy (Some msg) then Some msg else Some (JObj []));
          ident = get_prop m (js ''id'');
          method = get_prop m (js ''method'');
          params = get_prop m (js ''params'')
      in if method = Some (JStr (js ''initialize'')) then
           Some (Inr (srv, [Send \<lparr> resp_id = ident, resp_body = InitializeResult \<rparr>]))
         else if method = Some (JStr (js ''notifications/initialized'')) then
           Some (Inr (srv, []))
         else if method = Some (JStr (js ''tools/call'')) then
           (let toolName = get_prop params (js ''name'');
                toolArgs = (if truthy (get_prop params (js ''arguments''))
                            then get_prop params (js ''arguments'') else Some (JObj []))
            in if toolName = Some (JStr (js ''execute'')) then
                 Some (Inr (srv, [CallExecute toolArgs ident]))
               else if toolName = Some (JStr (js ''history'')) then
                 (case get_prop toolArgs (js ''limit'') of
                    None \<Rightarrow>
                      Some (Inr (srv, [Send \<lparr> resp_id = ident, resp_body =
                        ToolResult (HistoryText (getHistory None (commandHistory srv))) \<rparr>]))
                  | Some l \<Rightarrow>
                      (case slice_limit l of
                         None \<Rightarrow> None
                       | Some (Inl e) \<Rightarrow> Some (Inl e)
                       | Some (Inr n) \<Rightarrow>
                           Some (Inr (srv, [Send \<lparr> resp_id = ident, resp_body =
                             ToolResult (HistoryText (getHistory (Some n) (commandHistory srv))) \<rparr>]))))
               else if toolName = Some (JStr (js ''clearHistory'')) then
                 Some (Inr (srv\<lparr>commandHistory := []\<rparr>,
                            [Send \<lparr> resp_id = ident, resp_body = ToolResult ClearedText \<rparr>]))
               else if toolName = Some (JStr (js ''aliases'')) then
                 Some (Inr (srv, [Send \<lparr> resp_id = ident, resp_body =
                   ToolResult (AliasesText (aliases srv)) \<rparr>]))
               else if toolName = Some (JStr (js ''addAlias'')) then
                 (if truthy (get_prop toolArgs (js ''name''))
                     \<and> truthy (get_prop toolArgs (js ''command'')) then
                    (case to_string (the (get_prop toolArgs (js ''name''))) of
                       Inl e \<Rightarrow> Some (Inl e)
                     | Inr key \<Rightarrow>
                         (case alias_set (aliases srv) key (the (get_prop toolArgs (js ''command''))) of
                            None \<Rightarrow> None
                          | Some table \<Rightarrow>
                              Some (Inr (srv\<lparr>aliases := table\<rparr>,
                                [SaveAliases table,
                                 Send \<lparr> resp_id = ident, resp_body =
                                   ToolResult (AddedText (the (get_prop toolArgs (js ''name'')))) \<rparr>]))))
                  else
                    Some (Inr (srv, [Send \<lparr> resp_id = ident, resp_body =
                      ErrorBody (- 32602) (js ''Missing required fields: name, command'') None \<rparr>])))
               else if toolName = Some (JStr (js ''removeAlias'')) then
                 (case (if truthy (get_prop toolArgs (js ''name''))
                        then to_string (the (get_prop toolArgs (js ''name''))) else Inr []) of
                    Inl e \<Rightarrow> Some (Inl e)
                  | Inr key \<Rightarrow>
                      (if truthy (get_prop toolArgs (js ''name''))
                          \<and> lookup_truthy (alias_get (aliases srv) key) then
                         Some (Inr (srv\<lparr>aliases := (aliases srv)(key := None)\<rparr>,
                           [SaveAliases ((aliases srv)(key := None)),
                            Send \<lparr> resp_id = ident, resp_body =
                              ToolResult (RemovedText (the (get_prop toolArgs (js ''name'')))) \<rparr>]))
                       else
                         (case to_string_val (get_prop toolArgs (js ''name'')) of
                            Inl e \<Rightarrow> Some (Inl e)
                          | Inr text \<Rightarrow>
                              Some (Inr (srv, [Send \<lparr> resp_id = ident, resp_body =
                                ErrorBody (- 32602) (js ''Alias not found: '' @ text) None \<rparr>])))))
               else
                 (case to_string_val toolName of
                    Inl e \<Rightarrow> Some (Inl e)
                  | Inr text \<Rightarrow>
                      Some (Inr (srv, [Send \<lparr> resp_id = ident, resp_body =
                        ErrorBody (- 32601) (js ''Unknown tool: '' @ text) None \<rparr>]))))
         else
           Some (Inr (srv, [Send \<lparr> resp_id = ident, resp_body =
             ErrorBody (- 32600) (js ''Unknown method'') None \<rparr>])))"

section \<open>Message framer\<close>

text \<open>
  \<open>line.match(/^Content-Length:\s*(\d+)$/i)\<close> followed by \<open>parseInt(match[1], 10)\<close>:
  the header name in any ASCII case, optional whitespace, then digits up to the end of the
  line. The length is kept as a natural number.
\<close>

definition lower :: "jschar \<Rightarrow> jschar" where
  "lower c = (if 0x41 \<le> c \<and> c \<le> 0x5A then c + 0x20 else c)"

definition is_digit :: "jschar \<Rightarrow> bool" where
  "is_digit c = (0x30 \<le> c \<and> c \<le> 0x39)"

definition parse_decimal :: "jsstring \<Rightarrow> nat" where
  "parse_decimal ds = foldl (\<lambda>a c. 10 * a + unat (c - 0x30)) 0 ds"

definition match_content_length :: "jsstring \<Rightarrow> nat option" where
  "match_content_length line =
     (let n = length (js ''content-length:'')
      in if map lower (take n line) = js ''content-length:'' then
           (let ds = dropWhile is_ws (drop n line)
            in if ds \<noteq> [] \<and> list_all is_digit ds then Some (parse_decimal ds) else None)
         else None)"

record framer =
  buffer :: jsstring
  contentLength :: nat
  readingBody :: bool

definition initial_framer :: framer where
  "initial_framer = \<lparr> buffer = [], contentLength = 0, readingBody = False \<rparr>"

definition parse_error_response :: response where
  "parse_error_response =
     \<lparr> resp_id = Some JNull, resp_body = ErrorBody (- 32700) (js ''Parse error'') None \<rparr>"

text \<open>
  The \<open>line\<close> handler of \<open>readStdin\<close>. \<open>parse\<close> is \<open>JSON.parse\<close>, \<open>None\<close> when it
  throws. The \<open>try\<close> block holds \<open>handleMessage(msg)\<close> as well, so an exception thrown
  by the handler is caught by the same \<open>catch\<close>.
\<close>

definition on_line ::
  "(jsstring \<Rightarrow> json option) \<Rightarrow> jsstring \<Rightarrow> framer \<times> server \<Rightarrow> (framer \<times> server \<times> action list) option" where
  "on_line parse line st =
     (let f = fst st; srv = snd st
      in if \<not> readingBody f then
           (case match_content_length line of
              Some n \<Rightarrow> Some (f\<lparr>contentLength := n\<rparr>, srv, [])
            | None \<Rightarrow>
                if trim line = [] then
                  (if contentLength f > 0 then Some (f\<lparr>readingBody := True, buffer := []\<rparr>, srv, [])
                   else Some (f, srv, []))
                else Some (f, srv, []))
         else
           (let buf = buffer f @ line @ [0xA]
            in if length buf \<ge> contentLength f then
                 (let reset = f\<lparr>readingBody := False, contentLength := 0, buffer := []\<rparr>
                  in case parse buf of
                       None \<Rightarrow> Some (reset, srv, [Send parse_error_response])
                     | Some msg \<Rightarrow>
                         (case handleMessage msg srv of
                            None \<Rightarrow> None
                          | Some (Inl e) \<Rightarrow> Some (reset, srv, [Send parse_error_response])
                          | Some (Inr (srv', acts)) \<Rightarrow> Some (reset, srv', acts)))
               else Some (f\<lparr>buffer := buf\<rparr>, srv, [])))"

section \<open>Auxiliary notions for the statements\<close>

fun is_close :: "event \<Rightarrow> bool" where
  "is_close (Close code now stamp) = True"
| "is_close e = False"

fun is_terminal :: "event \<Rightarrow> bool" where
  "is_terminal (Close code now stamp) = True"
| "is_terminal (SpawnError message) = True"
| "is_terminal e = False"

fun outcome_cwd :: "outcome \<Rightarrow> jsstring" where
  "outcome_cwd (Completed r) = res_cwd r"
| "outcome_cwd (Failed f) = sf_cwd f"


text \<open>The framer over a sequence of lines, collecting what is sent.\<close>

fun run_lines ::
  "(jsstring \<Rightarrow> json option) \<Rightarrow> jsstring list \<Rightarrow> framer \<times> server \<Rightarrow> (framer \<times> server \<times> action list) option" where
  "run_lines parse [] st = Some (fst st, snd st, [])"
| "run_lines parse (l # ls) st =
     (case on_line parse l st of
        None \<Rightarrow> None
      | Some (f, srv, acts) \<Rightarrow>
          (case run_lines parse ls (f, srv) of
             None \<Rightarrow> None
           | Some (f', srv', acts') \<Rightarrow> Some (f', srv', acts @ acts')))"

section \<open>Sample inputs\<close>

definition sleep_request :: ExecutionRequest where
  "sleep_request = \<lparr> req_command = js ''sleep 5'', req_cwd = None, req_env = None,
     req_timeout = Some 100, req_maxOutput = None \<rparr>"

definition outside_request :: ExecutionRequest where
  "outside_request = \<lparr> req_command = js ''sleep 5'', req_cwd = Some (js ''/etc''), req_env = None,
     req_timeout = Some 100, req_maxOutput = None \<rparr>"


definition zero_cap_request :: ExecutionRequest where
  "zero_cap_request = \<lparr> req_command = js ''echo a'', req_cwd = None, req_env = None,
     req_timeout = None, req_maxOutput = Some 0 \<rparr>"

definition constructor_request :: ExecutionRequest where
  "constructor_request = \<lparr> req_command = js ''constructor'', req_cwd = None, req_env = None,
     req_timeout = None, req_maxOutput = None \<rparr>"

definition nul_request :: ExecutionRequest where
  "nul_request = \<lparr> req_command = js ''echo a'' @ [0] @ js ''b'', req_cwd = Some (js ''/etc''),
     req_env = None, req_timeout = None, req_maxOutput = None \<rparr>"

definition gp_table :: alias_table where
  "gp_table = [js ''gp'' \<mapsto> JStr (js ''git pull origin main''), js ''git'' \<mapsto> JStr (js ''hub'')]"

definition empty_template_table :: alias_table where
  "empty_template_table = [js ''e'' \<mapsto> JStr []]"

definition bad_tool_message :: json where
  "bad_tool_message =
     JObj [(js ''id'', JNum 7), (js ''method'', JStr (js ''tools/call'')),
           (js ''params'', JObj [(js ''name'', JObj [(js ''toString'', JNum 0)])])]"

definition add_without_command :: json where
  "add_without_command =
     JObj [(js ''id'', JNum 3), (js ''method'', JStr (js ''tools/call'')),
           (js ''params'', JObj [(js ''name'', JStr (js ''addAlias'')),
              (js ''arguments'', JObj [(js ''name'', JStr (js ''gp'')), (js ''command'', JStr [])])])]"

section \<open>History query\<close>

lemma js_slice_neg_pos:
  "0 < k \<Longrightarrow> js_slice (- k) xs = drop (length xs - nat k) xs"
  by (auto simp: js_slice_def Let_def max_def nat_diff_distrib' intro: arg_cong [where f = "\<lambda>n. drop n xs"])

lemma getHistory_positive_limit:
  "0 < k \<Longrightarrow> getHistory (Some k) h = take (min (nat k) (length h)) (rev h)"
  by (simp add: getHistory_def js_slice_neg_pos take_rev min_def)

text \<open>
  C7. The history query with limit \<open>k\<close> should return the last \<open>min k N\<close> entries, newest
  first. With \<open>k = 0\<close> the source evaluates \<open>slice(-0)\<close>, which keeps the whole log: on
  a log of two entries the query with limit 0 returns both entries, not none.
\<close>

theorem getHistory_limit_zero_returns_all:
  "getHistory (Some 0) [sample_entry 1, sample_entry 2] = [sample_entry 2, sample_entry 1]
   \<and> length (getHistory (Some 0) [sample_entry 1, sample_entry 2]) \<noteq> min 0 2"
  by (simp add: getHistory_def js_slice_def)

section \<open>Event traces\<close>

lemmas string_eval = js_def is_ws_def trim_def split_ws.simps

lemma run_snoc: "run c (es @ [e]) w = step c e (run c es w)"
  by (simp add: run_def)

lemma run_Cons: "run c (e # es) w = run c es (step c e w)"
  by (simp add: run_def)

lemma run_Nil: "run c [] w = w"
  by (simp add: run_def)

lemma step_nonterminal_settled:
  "\<not> is_terminal e \<Longrightarrow> settled (fst (step c e w)) = settled (fst w)"
  by (cases e) (auto simp: outputHandler_def doTimeout_def Let_def)

lemma run_nonterminal_settled:
  "\<forall>e \<in> set es. \<not> is_terminal e \<Longrightarrow> settled (fst (run c es w)) = settled (fst w)"
  by (induction es arbitrary: w) (simp_all add: run_Nil run_Cons step_nonterminal_settled)

lemma step_nonclose_history:
  "\<not> is_close e \<Longrightarrow> snd (step c e w) = snd w"
  by (cases e) auto

lemma run_nonclose_history:
  "\<forall>e \<in> set es. \<not> is_close e \<Longrightarrow> snd (run c es w) = snd w"
  by (induction es arbitrary: w) (simp_all add: run_Nil run_Cons step_nonclose_history)

lemma on_close_unsettled:
  "settled (fst w) = None \<Longrightarrow>
   settled (fst (on_close c code now stamp w)) =
     Some (Completed (close_result c code now ((fst w)\<lparr>timer_pending := False\<rparr>)))"
  by (simp add: on_close_def resolve_def Let_def)

lemma on_close_history:
  "snd (on_close c code now stamp w) =
     (if timedOut (fst w) then snd w else snd w @ [close_entry c code now stamp])"
  by (simp add: on_close_def Let_def)

lemma start_initial:
  "executeCommand_start pr rf penv t0 al args = Inr (c, call, delay, s0) \<Longrightarrow> s0 = initial_state"
  by (auto simp: executeCommand_start_def Let_def split: sum.splits option.splits)

lemma resolve_sleep: "resolveCommand Map.empty (js ''sleep 5'') = Inr (js ''sleep 5'')"
  by (simp add: resolveCommand_def alias_get_def object_prototype_names_def string_eval)

lemma spawn_accepts_sleep:
  "spawn_throws (\<lambda>call. False)
     \<lparr> sp_command = js ''sleep 5'', sp_shell = sh, sp_cwd = dir, sp_env = env \<rparr> = None"
  by (simp add: spawn_throws_def js_def)

lemma start_sleep:
  "executeCommand_start (\<lambda>p. p) (\<lambda>call. False) Map.empty 0 Map.empty sleep_request =
     Inr (\<lparr> command = js ''sleep 5'', resolvedCmd = js ''sleep 5'', resolvedCwd = workspace_root,
            timeout = 100, maxOutput = 1048576, startTime = 0 \<rparr>,
          \<lparr> sp_command = js ''sleep 5'', sp_shell = js ''/bin/bash'', sp_cwd = workspace_root,
            sp_env = Map.empty \<rparr>,
          100, initial_state)"
  by (simp add: executeCommand_start_def sleep_request_def resolve_sleep spawn_accepts_sleep
      allowedDirectories_def workspace_root_def defaultTimeout_def maxTimeout_def
      config_maxOutput_def Let_def)

section \<open>The result of a completed execution\<close>

text \<open>
  C1. When the child's \<open>close\<close> event is the first event that settles the promise (no
  earlier \<open>close\<close> or \<open>error\<close>), the promise resolves with an ExecutionResult whose
  \<open>success\<close> is true exactly when the exit code is 0 or the execution timed out; the exit
  code is reported as delivered, and \<open>timedOut\<close> is the flag the timeout handler set. So
  a timed-out execution is reported with \<open>success = true\<close>.
\<close>

theorem close_success_iff_zero_or_timedOut:
  assumes start: "executeCommand_start pr rf penv t0 al args = Inr (c, call, delay, s0)"
    and running: "\<forall>e \<in> set es. \<not> is_terminal e"
  shows "\<exists>r. fst (executeCommand pr rf penv t0 al args (es @ [Close code now stamp]) h)
               = Resolved (Completed r)
             \<and> res_success r = (code = Some 0 \<or> res_timedOut r)
             \<and> res_exitCode r = code
             \<and> res_timedOut r = timedOut (fst (run c es (s0, h)))
             \<and> (res_timedOut r \<longrightarrow> res_success r)"
proof -
  let ?w = "run c es (s0, h)"
  have "s0 = initial_state" using start by (rule start_initial)
  then have "settled (fst ?w) = None"
    using run_nonterminal_settled [OF running, of c "(s0, h)"] by (simp add: initial_state_def)
  then have "settled (fst (run c (es @ [Close code now stamp]) (s0, h)))
      = Some (Completed (close_result c code now ((fst ?w)\<lparr>timer_pending := False\<rparr>)))"
    by (simp add: run_snoc on_close_unsettled)
  then have "fst (executeCommand pr rf penv t0 al args (es @ [Close code now stamp]) h)
      = Resolved (Completed (close_result c code now ((fst ?w)\<lparr>timer_pending := False\<rparr>)))"
    using start by (simp add: executeCommand_def Let_def)
  then show ?thesis by (simp add: close_result_def)
qed

text \<open>
  The timeout scenario: the timer fires, the killed child closes with no exit code, and the
  result has \<open>success = true\<close> and \<open>timedOut = true\<close>.
\<close>

theorem close_success_iff_zero_or_timedOut_witness:
  "\<exists>r. fst (executeCommand (\<lambda>p. p) (\<lambda>call. False) Map.empty 0 Map.empty sleep_request
             ([TimerFired] @ [Close None 105 []]) []) = Resolved (Completed r)
       \<and> res_success r \<and> res_exitCode r = None \<and> res_timedOut r"
proof -
  have running: "\<forall>e \<in> set [TimerFired]. \<not> is_terminal e" by simp
  show ?thesis
    using close_success_iff_zero_or_timedOut [OF start_sleep running, of None 105 "[]" "[]"]
    by (auto simp: run_def initial_state_def doTimeout_def)
qed

section \<open>History entries\<close>

text \<open>
  C2. When the child's \<open>close\<close> event arrives (for the first time in the call), the
  history log gains exactly one entry, holding the resolved command, the directory the child
  was spawned in, \<open>success = (exitCode == 0)\<close>, the exit code, the duration and the
  timestamp, if and only if the execution has not timed out; when it has timed out the log is
  left as it was.
\<close>

theorem history_entry_iff_not_timedOut:
  assumes start: "executeCommand_start pr rf penv t0 al args = Inr (c, call, delay, s0)"
    and first_close: "\<forall>e \<in> set es. \<not> is_close e"
  shows "snd (executeCommand pr rf penv t0 al args (es @ [Close code now stamp]) h) =
           (if timedOut (fst (run c es (s0, h))) then h
            else h @ [\<lparr> he_command = sp_command call, he_cwd = sp_cwd call,
                         he_success = (code = Some 0), he_exitCode = code,
                         he_duration = now - t0, he_timestamp = stamp \<rparr>])"
proof -
  have call: "sp_command call = resolvedCmd c" "sp_cwd call = resolvedCwd c" "startTime c = t0"
    using start by (auto simp: executeCommand_start_def Let_def split: sum.splits option.splits)
  have "snd (run c es (s0, h)) = h"
    using run_nonclose_history [OF first_close, of c "(s0, h)"] by simp
  then have "snd (run c (es @ [Close code now stamp]) (s0, h)) =
      (if timedOut (fst (run c es (s0, h))) then h else h @ [close_entry c code now stamp])"
    by (simp add: run_snoc on_close_history)
  then show ?thesis
    using start by (simp add: executeCommand_def Let_def close_entry_def call)
qed

text \<open>
  A completed execution appends its entry after the entries already there; a timed-out one
  leaves the log alone.
\<close>

theorem history_entry_iff_not_timedOut_witness:
  "snd (executeCommand (\<lambda>p. p) (\<lambda>call. False) Map.empty 0 Map.empty sleep_request
          ([Data Stdout (js ''hi'')] @ [Close (Some 0) 7 (js ''t1'')]) [sample_entry 1]) =
     [sample_entry 1,
      \<lparr> he_command = js ''sleep 5'', he_cwd = workspace_root, he_success = True,
        he_exitCode = Some 0, he_duration = 7, he_timestamp = js ''t1'' \<rparr>]
   \<and> snd (executeCommand (\<lambda>p. p) (\<lambda>call. False) Map.empty 0 Map.empty sleep_request
          ([TimerFired] @ [Close None 105 (js ''t2'')]) [sample_entry 1]) = [sample_entry 1]"
proof -
  have a: "\<forall>e \<in> set [Data Stdout (js ''hi'')]. \<not> is_close e" by simp
  have b: "\<forall>e \<in> set [TimerFired]. \<not> is_close e" by simp
  show ?thesis
    using history_entry_iff_not_timedOut [OF start_sleep a, of "Some 0" 7 "js ''t1''" "[sample_entry 1]"]
      history_entry_iff_not_timedOut [OF start_sleep b, of None 105 "js ''t2''" "[sample_entry 1]"]
    by (simp add: run_def initial_state_def doTimeout_def outputHandler_def)
qed

section \<open>Working directory\<close>

lemma step_settled_cwd:
  "(\<forall>out. settled (fst w) = Some out \<longrightarrow> outcome_cwd out = resolvedCwd c) \<Longrightarrow>
   settled (fst (step c e w)) = Some out \<Longrightarrow> outcome_cwd out = resolvedCwd c"
  by (cases e)
    (auto simp: outputHandler_def doTimeout_def on_close_def on_error_def resolve_def
      close_result_def Let_def split: if_splits option.splits)

lemma run_settled_cwd:
  "(\<forall>out. settled (fst w) = Some out \<longrightarrow> outcome_cwd out = resolvedCwd c) \<Longrightarrow>
   settled (fst (run c es w)) = Some out \<Longrightarrow> outcome_cwd out = resolvedCwd c"
proof (induction es arbitrary: w out)
  case Nil
  then show ?case by (simp add: run_Nil)
next
  case (Cons e es)
  have "\<forall>out. settled (fst (step c e w)) = Some out \<longrightarrow> outcome_cwd out = resolvedCwd c"
    using Cons.prems(1) step_settled_cwd by blast
  then show ?case using Cons.IH Cons.prems(2) by (simp add: run_Cons)
qed

lemma start_outside:
  assumes resolves: "resolveCommand al (req_command args) = Inr rc"
    and accepted: "spawn_throws rf
        \<lparr> sp_command = rc, sp_shell = js ''/bin/bash'', sp_cwd = workspace_root,
          sp_env = penv ++ (case req_env args of None \<Rightarrow> Map.empty | Some e \<Rightarrow> e) \<rparr> = None"
    and outside: "\<not> (\<exists>dir \<in> set allowedDirectories.
        prefix dir (pr (case req_cwd args of None \<Rightarrow> workspace_root | Some d \<Rightarrow> d)))"
  shows "executeCommand_start pr rf penv t0 al args =
     Inr (\<lparr> command = req_command args, resolvedCmd = rc, resolvedCwd = workspace_root,
            timeout = (case req_timeout args of None \<Rightarrow> defaultTimeout | Some t \<Rightarrow> t),
            maxOutput = (case req_maxOutput args of None \<Rightarrow> config_maxOutput | Some m \<Rightarrow> m),
            startTime = t0 \<rparr>,
          \<lparr> sp_command = rc, sp_shell = js ''/bin/bash'', sp_cwd = workspace_root,
            sp_env = penv ++ (case req_env args of None \<Rightarrow> Map.empty | Some e \<Rightarrow> e) \<rparr>,
          min (case req_timeout args of None \<Rightarrow> defaultTimeout | Some t \<Rightarrow> t) maxTimeout,
          initial_state)"
  using outside accepted unfolding executeCommand_start_def workspace_root_def
  by (simp add: resolves Let_def list_ex_iff)

lemma rejection_is_not_the_directory_test:
  assumes outside: "\<not> (\<exists>dir \<in> set allowedDirectories.
        prefix dir (pr (case req_cwd args of None \<Rightarrow> workspace_root | Some d \<Rightarrow> d)))"
    and rejected: "executeCommand_start pr rf penv t0 al args = Inl e"
  shows "resolveCommand al (req_command args) = Inl e
       \<or> (\<exists>rc. resolveCommand al (req_command args) = Inr rc
             \<and> spawn_throws rf
                 \<lparr> sp_command = rc, sp_shell = js ''/bin/bash'', sp_cwd = workspace_root,
                   sp_env = penv ++ (case req_env args of None \<Rightarrow> Map.empty | Some e \<Rightarrow> e) \<rparr>
               = Some e)"
  using outside rejected unfolding executeCommand_start_def workspace_root_def
  by (auto simp: Let_def list_ex_iff split: sum.splits option.splits)

text \<open>
  C5. When the normalized \<open>cwd\<close> has no entry of the allow-list as a prefix, the call is
  not rejected on that account. The directory test throws nothing: a rejection comes from
  alias resolution or from \<open>spawn\<close> refusing the call it is given in the workspace root
  (\<open>rejection_is_not_the_directory_test\<close>). So when the command resolves and \<open>spawn\<close>
  accepts that call, the synchronous part completes, the child is spawned in the default
  workspace root, and whatever the promise resolves with, after any events, carries the
  default workspace root as its \<open>cwd\<close>.
\<close>

theorem disallowed_cwd_runs_in_workspace_root:
  assumes resolves: "resolveCommand al (req_command args) = Inr rc"
    and accepted: "spawn_throws rf
        \<lparr> sp_command = rc, sp_shell = js ''/bin/bash'', sp_cwd = workspace_root,
          sp_env = penv ++ (case req_env args of None \<Rightarrow> Map.empty | Some e \<Rightarrow> e) \<rparr> = None"
    and outside: "\<not> (\<exists>dir \<in> set allowedDirectories.
        prefix dir (pr (case req_cwd args of None \<Rightarrow> workspace_root | Some d \<Rightarrow> d)))"
  shows "\<exists>c call delay s0.
           executeCommand_start pr rf penv t0 al args = Inr (c, call, delay, s0)
           \<and> sp_cwd call = workspace_root
           \<and> (\<forall>es h out. fst (executeCommand pr rf penv t0 al args es h) = Resolved out
                \<longrightarrow> outcome_cwd out = workspace_root)"
proof -
  obtain c call delay where
    start: "executeCommand_start pr rf penv t0 al args = Inr (c, call, delay, initial_state)"
    and cwd: "sp_cwd call = workspace_root" "resolvedCwd c = workspace_root"
    using start_outside [where pr = pr, OF resolves accepted outside, of t0] by simp
  have "outcome_cwd out = workspace_root"
    if "fst (executeCommand pr rf penv t0 al args es h) = Resolved out" for es h out
  proof -
    from that start have "settled (fst (run c es (initial_state, h))) = Some out"
      by (simp add: executeCommand_def Let_def split: option.splits)
    moreover have "\<forall>out. settled (fst (initial_state, h)) = Some out
        \<longrightarrow> outcome_cwd out = resolvedCwd c"
      by (simp add: initial_state_def)
    ultimately show ?thesis using run_settled_cwd cwd(2) by metis
  qed
  with start cwd(1) show ?thesis by blast
qed

text \<open>A request for \<open>/etc\<close> runs in the workspace root and reports it.\<close>

theorem disallowed_cwd_runs_in_workspace_root_witness:
  "\<exists>c call delay s0.
     executeCommand_start (\<lambda>p. p) (\<lambda>call. False) Map.empty 0 Map.empty outside_request = Inr (c, call, delay, s0)
     \<and> sp_cwd call = workspace_root \<and> sp_cwd call \<noteq> js ''/etc''
     \<and> (\<exists>out. fst (executeCommand (\<lambda>p. p) (\<lambda>call. False) Map.empty 0 Map.empty outside_request
                  [Close (Some 0) 3 []] []) = Resolved out \<and> outcome_cwd out = workspace_root)"
proof -
  have resolves: "resolveCommand Map.empty (req_command outside_request) = Inr (js ''sleep 5'')"
    by (simp add: outside_request_def resolve_sleep)
  have outside: "\<not> (\<exists>dir \<in> set allowedDirectories.
      prefix dir ((\<lambda>p. p) (case req_cwd outside_request of None \<Rightarrow> workspace_root | Some d \<Rightarrow> d)))"
    by (simp add: outside_request_def allowedDirectories_def js_def)
  have accepted: "spawn_throws (\<lambda>call. False)
      \<lparr> sp_command = js ''sleep 5'', sp_shell = js ''/bin/bash'', sp_cwd = workspace_root,
        sp_env = Map.empty ++ (case req_env outside_request of None \<Rightarrow> Map.empty | Some e \<Rightarrow> e) \<rparr>
      = None"
    by (rule spawn_accepts_sleep)
  have settles: "\<exists>out. fst (executeCommand (\<lambda>p. p) (\<lambda>call. False) Map.empty 0 Map.empty outside_request
      [Close (Some 0) 3 []] []) = Resolved out"
    by (simp add: executeCommand_def executeCommand_start_def outside_request_def resolve_sleep
        spawn_accepts_sleep Let_def run_def on_close_def resolve_def initial_state_def
        split: option.splits)
  have differ: "workspace_root \<noteq> js ''/etc''"
    by (simp add: workspace_root_def js_def)
  show ?thesis
    using disallowed_cwd_runs_in_workspace_root [where pr = "\<lambda>p. p", OF resolves accepted outside, of 0]
      settles differ
    by metis
qed

section \<open>Kill triggers\<close>










section \<open>Truncation of the output\<close>

lemma close_result_stdout_tail:
  "0 < maxOutput c \<Longrightarrow>
   res_stdout (close_result c code now s) = drop (length (stdout s) - nat (maxOutput c)) (stdout s)
   \<and> int (length (res_stdout (close_result c code now s))) \<le> maxOutput c"
  by (auto simp: close_result_def js_slice_neg_pos)

lemma close_result_stderr_tail:
  "0 < maxOutput c \<Longrightarrow>
   res_stderr (close_result c code now s) =
     (if timedOut s then stderr s else drop (length (stderr s) - nat (maxOutput c)) (stderr s))"
  by (auto simp: close_result_def js_slice_neg_pos)

lemma resolve_echo: "resolveCommand Map.empty (js ''echo a'') = Inr (js ''echo a'')"
  by (simp add: resolveCommand_def alias_get_def object_prototype_names_def string_eval)

lemma spawn_accepts_echo:
  "spawn_throws (\<lambda>call. False)
     \<lparr> sp_command = js ''echo a'', sp_shell = sh, sp_cwd = dir, sp_env = env \<rparr> = None"
  by (simp add: spawn_throws_def js_def)

lemma start_zero_cap:
  "executeCommand_start (\<lambda>p. p) (\<lambda>call. False) Map.empty 0 Map.empty zero_cap_request =
     Inr (\<lparr> command = js ''echo a'', resolvedCmd = js ''echo a'', resolvedCwd = workspace_root,
            timeout = 30000, maxOutput = 0, startTime = 0 \<rparr>,
          \<lparr> sp_command = js ''echo a'', sp_shell = js ''/bin/bash'', sp_cwd = workspace_root,
            sp_env = Map.empty \<rparr>,
          30000, initial_state)"
  by (simp add: executeCommand_start_def zero_cap_request_def resolve_echo spawn_accepts_echo
      allowedDirectories_def workspace_root_def defaultTimeout_def maxTimeout_def Let_def)

text \<open>
  C8. The result's \<open>stdout\<close> should be the last \<open>maxOutput\<close> characters of the buffer, so
  never longer than \<open>maxOutput\<close>. For \<open>maxOutput > 0\<close> it is
  (\<open>close_result_stdout_tail\<close>, and \<open>close_result_stderr_tail\<close> for \<open>stderr\<close>). With
  \<open>maxOutput = 0\<close> the first chunk is still buffered (the buffers do not yet exceed 0), and
  \<open>slice(-0)\<close> keeps all of it: the result's \<open>stdout\<close> is one character long.
\<close>

theorem zero_maxOutput_keeps_whole_stdout:
  "fst (executeCommand (\<lambda>p. p) (\<lambda>call. False) Map.empty 0 Map.empty zero_cap_request
          [Data Stdout (js ''a''), Close (Some 0) 5 []] []) =
     Resolved (Completed \<lparr> res_success = True, res_exitCode = Some 0, res_stdout = js ''a'',
       res_stderr = [], res_duration = 5, res_cwd = workspace_root, res_timedOut = False,
       res_originalCommand = js ''echo a'', res_resolvedCommand = js ''echo a'' \<rparr>)
   \<and> length (js ''a'') = 1"
  by (simp add: executeCommand_def start_zero_cap Let_def run_def initial_state_def
      outputHandler_def on_close_def close_result_def resolve_def js_slice_def)
    (simp add: js_def)

section \<open>Rejection of the promise\<close>

lemma spawn_error_settles:
  "settled (fst w) = None \<Longrightarrow>
   settled (fst (step c (SpawnError message) w)) =
     Some (Failed \<lparr> sf_success = False, sf_error = message, sf_cwd = resolvedCwd c,
       sf_originalCommand = command c, sf_resolvedCommand = resolvedCmd c \<rparr>)
   \<and> snd (step c (SpawnError message) w) = snd w"
  by (simp add: on_error_def resolve_def)

text \<open>
  A command that holds a NUL character resolves to itself, \<open>spawn\<close> throws on it, and the
  promise is rejected: no child runs, in the workspace root or anywhere else.
\<close>

lemma execute_rejects_nul_command:
  "executeCommand pr rf penv t0 Map.empty nul_request es h = (Rejected TypeError, h)"
proof -
  have "resolveCommand Map.empty (js ''echo a'' @ [0] @ js ''b'') = Inr (js ''echo a'' @ [0] @ js ''b'')"
    by (simp add: resolveCommand_def alias_get_def object_prototype_names_def string_eval)
  then show ?thesis
    by (simp add: executeCommand_def executeCommand_start_def nul_request_def spawn_throws_def
        Let_def)
qed

text \<open>
  C9. \<open>executeCommand\<close> should resolve for every non-empty command string. For the
  command \<open>constructor\<close> and an empty alias table, \<open>aliases['constructor']\<close> is the
  function every object inherits, \<open>.split\<close> of it is not a function, and the exception
  thrown inside the promise's executor rejects the promise, whatever the runtime does next.
\<close>

theorem execute_rejects_on_inherited_name:
  "executeCommand pr rf penv t0 Map.empty constructor_request es h = (Rejected TypeError, h)"
  by (simp add: executeCommand_def executeCommand_start_def constructor_request_def
      resolveCommand_def alias_get_def object_prototype_names_def string_eval Let_def)

section \<open>Alias resolution\<close>

lemma split_ws_nonempty: "split_ws s \<noteq> []"
  by (subst split_ws.simps) (simp add: Let_def)

text \<open>
  C3, as stated, fails for an alias whose command template is the empty string (as
  \<open>alias-manager.js add e ""\<close> stores it): the first token \<open>e\<close> is a key of the table,
  the claim asks for the template's pieces followed by the rest, which is \<open>" x"\<close>, and the
  source, testing the template for truthiness, returns the input \<open>"e x"\<close> unchanged.
\<close>

theorem empty_template_is_not_expanded:
  "empty_template_table (hd (split_ws (trim (js ''e x'')))) = Some (JStr [])
   \<and> resolveCommand empty_template_table (js ''e x'') = Inr (js ''e x'')
   \<and> join_sp (split_ws [] @ tl (split_ws (trim (js ''e x'')))) = js '' x''
   \<and> js ''e x'' \<noteq> js '' x''"
  by (simp add: empty_template_table_def resolveCommand_def alias_get_def string_eval)

text \<open>
  C3, amended. Let the tokens be the pieces of the input between runs of whitespace, the
  whitespace at its two ends set aside.
  If the first token is a key of the alias table whose command template is a non-empty
  string, the result is the template's pieces followed by the remaining tokens, joined by
  single spaces: no token but the first is rewritten, and the result is not resolved again.
  If the first token is a key whose template is the empty string, or is no key of the table
  and none of the property names every object inherits, the input is returned unchanged.
\<close>

theorem resolveCommand_rewrites_first_token_only:
  "let parts = split_ws (trim cmd) in
     (\<forall>template. hd parts \<noteq> js ''__proto__'' \<and> table (hd parts) = Some (JStr template)
          \<and> template \<noteq> []
        \<longrightarrow> resolveCommand table cmd = Inr (join_sp (split_ws template @ tl parts)))
     \<and> (hd parts \<noteq> js ''__proto__'' \<and> table (hd parts) = Some (JStr [])
        \<longrightarrow> resolveCommand table cmd = Inr cmd)
     \<and> (table (hd parts) = None \<and> hd parts \<notin> set object_prototype_names
        \<longrightarrow> resolveCommand table cmd = Inr cmd)"
  by (auto simp: resolveCommand_def alias_get_def Let_def object_prototype_names_def)

text \<open>
  The spec's examples: \<open>gp --x\<close> becomes \<open>git pull origin main --x\<close> (and \<open>git\<close>,
  itself an alias here, is not resolved again); \<open>x gp\<close> is unchanged.
\<close>

theorem resolveCommand_rewrites_first_token_only_witness:
  "resolveCommand gp_table (js ''gp --x'') = Inr (js ''git pull origin main --x'')
   \<and> resolveCommand gp_table (js ''x gp'') = Inr (js ''x gp'')
   \<and> resolveCommand empty_template_table (js ''e x'') = Inr (js ''e x'')"
proof -
  have a: "resolveCommand gp_table (js ''gp --x'') = Inr (js ''git pull origin main --x'')"
    using resolveCommand_rewrites_first_token_only [of "js ''gp --x''" gp_table]
    by (simp add: gp_table_def string_eval)
  have b: "resolveCommand gp_table (js ''x gp'') = Inr (js ''x gp'')"
    using resolveCommand_rewrites_first_token_only [of "js ''x gp''" gp_table]
    by (simp add: gp_table_def string_eval object_prototype_names_def)
  have c: "resolveCommand empty_template_table (js ''e x'') = Inr (js ''e x'')"
    using resolveCommand_rewrites_first_token_only [of "js ''e x''" empty_template_table]
    by (simp add: empty_template_table_def string_eval)
  from a b c show ?thesis by simp
qed

section \<open>Correlation ids and parse errors\<close>

lemma ident_of_message:
  "get_prop (if truthy (Some msg) then Some msg else Some (JObj [])) k = get_prop (Some msg) k"
  by (cases msg) simp_all

lemma parse_failure_resets_framer:
  assumes "readingBody f" and "contentLength f \<le> length (buffer f @ line @ [0xA])"
    and "parse (buffer f @ line @ [0xA]) = None"
  shows "on_line parse line (f, srv) = Some (initial_framer, srv, [Send parse_error_response])"
  using assms by (simp add: on_line_def Let_def initial_framer_def)

lemma parse_failure_does_not_stop_the_reader:
  assumes "readingBody f" and "contentLength f \<le> length (buffer f @ line @ [0xA])"
    and "parse (buffer f @ line @ [0xA]) = None"
  shows "run_lines parse (line # rest) (f, srv) =
     map_option (\<lambda>(f', srv', acts). (f', srv', Send parse_error_response # acts))
       (run_lines parse rest (initial_framer, srv))"
  by (simp add: parse_failure_resets_framer [where parse = parse, OF assms] split: option.splits)

lemma handled_responses_carry_id:
  assumes "handleMessage msg srv = Some (Inr (srv', acts))"
  shows "(\<forall>r. Send r \<in> set acts \<longrightarrow> resp_id r = get_prop (Some msg) (js ''id''))
       \<and> (\<forall>a i. CallExecute a i \<in> set acts \<longrightarrow> i = get_prop (Some msg) (js ''id''))"
  using assms unfolding handleMessage_def Let_def ident_of_message
  by (auto split: if_splits option.splits sum.splits)

lemma execute_reply_carries_id: "execute_reply i p = Some r \<Longrightarrow> resp_id r = i"
  by (auto simp: execute_reply_def split: promise.splits)

text \<open>
  C4. A body that parses should be answered under its own id, and only an unparsable body
  under \<open>null\<close>. A body that fails to parse is answered so, the framer is reset and the
  lines after it are read as by a fresh framer (\<open>parse_failure_resets_framer\<close>,
  \<open>parse_failure_does_not_stop_the_reader\<close>); every response \<open>handleMessage\<close> sends carries the
  request's id (\<open>handled_responses_carry_id\<close>, \<open>execute_reply_carries_id\<close>). But
  \<open>handleMessage\<close> runs inside the \<open>try\<close> block that guards \<open>JSON.parse\<close>: the
  request with id 7 below parses, naming a tool by an object whose \<open>toString\<close> is not a
  function; building the message \<open>Unknown tool: ...\<close> throws, and the \<open>catch\<close> answers
  with a parse error under the id \<open>null\<close>.
\<close>

theorem handler_exception_answered_with_null_id:
  "get_prop (Some bad_tool_message) (js ''id'') = Some (JNum 7)
   \<and> handleMessage bad_tool_message srv = Some (Inl TypeError)
   \<and> on_line (\<lambda>body. Some bad_tool_message) line
        (\<lparr> buffer = [], contentLength = 1, readingBody = True \<rparr>, srv)
      = Some (initial_framer, srv, [Send parse_error_response])
   \<and> resp_id parse_error_response = Some JNull"
proof -
  have h: "handleMessage bad_tool_message srv = Some (Inl TypeError)"
    by (simp add: handleMessage_def bad_tool_message_def Let_def js_def)
  show ?thesis
    by (simp add: h on_line_def Let_def initial_framer_def parse_error_response_def)
      (simp add: bad_tool_message_def js_def)
qed

section \<open>addAlias without its fields\<close>

text \<open>
  C10. When \<open>addAlias\<close> is called and \<open>name\<close> or \<open>command\<close> is absent or the empty
  string, one response is sent, the error -32602 \<open>Missing required fields: name, command\<close>
  under the request's id, and the server's tables are unchanged (nothing is saved either).
\<close>

theorem addAlias_missing_field_rejected:
  assumes call: "get_prop (Some msg) (js ''method'') = Some (JStr (js ''tools/call''))"
    and tool: "get_prop (get_prop (Some msg) (js ''params'')) (js ''name'')
                 = Some (JStr (js ''addAlias''))"
    and args: "toolArgs =
       (if truthy (get_prop (get_prop (Some msg) (js ''params'')) (js ''arguments''))
        then get_prop (get_prop (Some msg) (js ''params'')) (js ''arguments'')
        else Some (JObj []))"
    and missing: "get_prop toolArgs (js ''name'') = None
       \<or> get_prop toolArgs (js ''name'') = Some (JStr [])
       \<or> get_prop toolArgs (js ''command'') = None
       \<or> get_prop toolArgs (js ''command'') = Some (JStr [])"
  shows "handleMessage msg srv =
     Some (Inr (srv, [Send \<lparr> resp_id = get_prop (Some msg) (js ''id''),
        resp_body = ErrorBody (- 32602) (js ''Missing required fields: name, command'') None \<rparr>]))"
proof -
  have falsy: "\<not> (truthy (get_prop toolArgs (js ''name''))
      \<and> truthy (get_prop toolArgs (js ''command'')))"
    using missing by auto
  have names: "js ''tools/call'' \<noteq> js ''initialize''"
    "js ''tools/call'' \<noteq> js ''notifications/initialized''"
    "js ''addAlias'' \<noteq> js ''execute''" "js ''addAlias'' \<noteq> js ''history''"
    "js ''addAlias'' \<noteq> js ''clearHistory''" "js ''addAlias'' \<noteq> js ''aliases''"
    by (simp_all add: js_def)
  show ?thesis
  proof (cases "truthy (get_prop (get_prop (Some msg) (js ''params'')) (js ''arguments''))")
    case True
    with falsy args show ?thesis
      unfolding handleMessage_def Let_def ident_of_message by (auto simp: call tool names)
  next
    case False
    with falsy args show ?thesis
      unfolding handleMessage_def Let_def ident_of_message by (auto simp: call tool names)
  qed
qed

text \<open>A call that gives a name and an empty command.\<close>

theorem addAlias_missing_field_rejected_witness:
  "handleMessage add_without_command \<lparr> aliases = Map.empty, commandHistory = [] \<rparr> =
     Some (Inr (\<lparr> aliases = Map.empty, commandHistory = [] \<rparr>,
       [Send \<lparr> resp_id = Some (JNum 3),
          resp_body = ErrorBody (- 32602) (js ''Missing required fields: name, command'') None \<rparr>]))"
proof -
  let ?args = "Some (JObj [(js ''name'', JStr (js ''gp'')), (js ''command'', JStr [])])"
  have call: "get_prop (Some add_without_command) (js ''method'') = Some (JStr (js ''tools/call''))"
    by (simp add: add_without_command_def js_def)
  have tool: "get_prop (get_prop (Some add_without_command) (js ''params'')) (js ''name'')
      = Some (JStr (js ''addAlias''))"
    by (simp add: add_without_command_def js_def)
  have args: "?args =
     (if truthy (get_prop (get_prop (Some add_without_command) (js ''params'')) (js ''arguments''))
      then get_prop (get_prop (Some add_without_command) (js ''params'')) (js ''arguments'')
      else Some (JObj []))"
    by (simp add: add_without_command_def js_def)
  have missing: "get_prop ?args (js ''name'') = None
     \<or> get_prop ?args (js ''name'') = Some (JStr [])
     \<or> get_prop ?args (js ''command'') = None
     \<or> get_prop ?args (js ''command'') = Some (JStr [])"
    by (simp add: js_def)
  have ident: "get_prop (Some add_without_command) (js ''id'') = Some (JNum 3)"
    by (simp add: add_without_command_def js_def)
  show ?thesis
    using addAlias_missing_field_rejected [OF call tool args missing] by (simp add: ident)
qed

end
